theory Spec2Isabelle
  imports Complex_Main "HOL-Library.Monad_Syntax"
begin

section \<open>Dormitory finance API: values, documents and failures\<close>

text \<open>
  The values a stored document or a handler variable can hold: Python's \<open>None\<close>, a number
  (Python \<open>int\<close> and \<open>float\<close>, read as the exact number they denote; binary rounding is
  outside this model), a string, a naive date-time (the time elapsed since
  \<open>datetime.min\<close>, so that \<open>datetime.min\<close> is \<open>0\<close>), and a store identifier.
\<close>

datatype pyval = PNone | PNum real | PStr string | PDatetime nat | PObjectId string

text \<open>A document is a Python \<open>dict\<close> from field names to values.\<close>

type_synonym doc = "string \<rightharpoonup> pyval"

text \<open>
  What a handler can raise. \<open>HTTPException\<close> carries its status code and detail;
  \<open>RequestValidationError\<close> is what the framework raises when the body or the query of a
  request does not fit the declared parameters; the others are ordinary Python exceptions
  that no handler catches.
\<close>

datatype exn =
    HTTPException nat string
  | RequestValidationError
  | ValidationError
  | TypeError
  | InvalidId
  | PyException string

text \<open>The HTTP status the framework answers with for each failure.\<close>

fun status_of :: "exn \<Rightarrow> nat" where
  "status_of (HTTPException code detail) = code"
| "status_of RequestValidationError = 422"
| "status_of e = 500"

definition COLLECTION :: string where
  "COLLECTION = ''transaction''"

subsection \<open>Python's dictionary reads, truth values and \<open>str\<close>\<close>

definition py_get :: "doc \<Rightarrow> string \<Rightarrow> pyval" where
  \<comment> \<open>\<open>d.get(k)\<close>\<close>
  "py_get d k = (case d k of None \<Rightarrow> PNone | Some v \<Rightarrow> v)"

definition py_get_default :: "doc \<Rightarrow> string \<Rightarrow> pyval \<Rightarrow> pyval" where
  \<comment> \<open>\<open>d.get(k, dflt)\<close>\<close>
  "py_get_default d k dflt = (case d k of None \<Rightarrow> dflt | Some v \<Rightarrow> v)"

fun py_truthy :: "pyval \<Rightarrow> bool" where
  "py_truthy PNone = False"
| "py_truthy (PNum x) = (x \<noteq> 0)"
| "py_truthy (PStr s) = (s \<noteq> [])"
| "py_truthy (PDatetime t) = True"
| "py_truthy (PObjectId h) = True"

definition py_or :: "pyval \<Rightarrow> pyval \<Rightarrow> pyval" where
  \<comment> \<open>\<open>a or b\<close>\<close>
  "py_or a b = (if py_truthy a then a else b)"

text \<open>
  \<open>str(v)\<close>. The decimal rendering of a number and the ISO rendering of a date-time are
  not modelled: they are the parameter \<open>str_other\<close>.
\<close>

fun py_str :: "(pyval \<Rightarrow> string) \<Rightarrow> pyval \<Rightarrow> string" where
  "py_str str_other PNone = ''None''"
| "py_str str_other (PStr s) = s"
| "py_str str_other (PObjectId h) = h"
| "py_str str_other v = str_other v"

section \<open>Authorization\<close>

text \<open>
  \<^verbatim>\<open>
  def is_admin(token: Optional[str]) -> bool:
      admin_token = os.getenv("ADMIN_TOKEN")
      return bool(admin_token) and token == admin_token
  \<close>
  The environment variable is the first argument: \<open>None\<close> when it is unset. The result is
  the truth value of the returned expression, which is how both callers use it.
\<close>

definition py_bool_opt_str :: "string option \<Rightarrow> bool" where
  \<comment> \<open>\<open>bool(s)\<close> for an optional string\<close>
  "py_bool_opt_str s = (case s of None \<Rightarrow> False | Some t \<Rightarrow> t \<noteq> [])"

definition is_admin :: "string option \<Rightarrow> string option \<Rightarrow> bool" where
  "is_admin ADMIN_TOKEN token = (py_bool_opt_str ADMIN_TOKEN \<and> token = ADMIN_TOKEN)"

section \<open>The store\<close>

text \<open>
  A collection holds at most one document for each value of \<open>_id\<close> (the store's unique
  index), so it is a map from that value to the document. A database maps a collection
  name to its collection; the handlers see the global \<open>db\<close>, which is \<open>None\<close> when no
  connection was made.
\<close>

type_synonym collection = "pyval \<rightharpoonup> doc"
type_synonym database = "string \<Rightarrow> collection"

text \<open>
  \<open>coll.delete_one({"_id": oid})\<close>: removes the document with that identifier when there
  is one, and reports how many documents it removed.
\<close>

definition delete_one :: "pyval \<Rightarrow> collection \<Rightarrow> nat \<times> collection" where
  "delete_one oid coll =
     (case coll oid of None \<Rightarrow> (0, coll) | Some d \<Rightarrow> (1, coll(oid := None)))"

section \<open>Deleting a transaction\<close>

text \<open>
  \<^verbatim>\<open>
  def delete_transaction(tx_id: str, x_admin_token: Optional[str] = Header(None)):
      if not is_admin(x_admin_token):
          raise HTTPException(status_code=403, detail="Hanya admin yang boleh mengedit")
      if db is None:
          raise HTTPException(status_code=500, detail="Database tidak tersedia")
      res = db[COLLECTION].delete_one({"_id": __import__("bson").ObjectId(tx_id)})
      if res.deleted_count == 0:
          raise HTTPException(status_code=404, detail="Transaksi tidak ditemukan")
      return {"message": "Transaksi dihapus"}
  \<close>
  The constructor \<open>bson.ObjectId\<close> is the parameter \<open>ObjectId\<close>: \<open>None\<close> where it raises
  \<open>InvalidId\<close>. The argument of \<open>delete_one\<close> is evaluated before the call, so a failing
  conversion leaves the store untouched. The function returns its answer and the global
  \<open>db\<close> as it is afterwards.
\<close>

definition delete_transaction ::
  "string option \<Rightarrow> (string \<Rightarrow> pyval option) \<Rightarrow> database option \<Rightarrow> string \<Rightarrow> string option
     \<Rightarrow> (exn + string) \<times> database option" where
  "delete_transaction ADMIN_TOKEN ObjectId db tx_id x_admin_token =
     (if \<not> is_admin ADMIN_TOKEN x_admin_token
      then (Inl (HTTPException 403 ''Hanya admin yang boleh mengedit''), db)
      else case db of
        None \<Rightarrow> (Inl (HTTPException 500 ''Database tidak tersedia''), db)
      | Some dbv \<Rightarrow>
          (case ObjectId tx_id of
             None \<Rightarrow> (Inl InvalidId, db)
           | Some oid \<Rightarrow>
               (case delete_one oid (dbv COLLECTION) of
                  (deleted_count, coll') \<Rightarrow>
                    (if deleted_count = 0
                     then Inl (HTTPException 404 ''Transaksi tidak ditemukan'')
                     else Inr ''Transaksi dihapus'',
                     Some (dbv(COLLECTION := coll'))))))"

section \<open>Validating and creating a transaction\<close>

text \<open>
  \<^verbatim>\<open>
  class TransactionIn(BaseModel):
      tanggal: datetime = Field(..., description="Tanggal transaksi")
      penghuni: Optional[str] = Field(None, description="Nama penghuni")
      kamar: Optional[str] = Field(None, description="Nomor kamar")
      keterangan: str = Field(..., description="Deskripsi transaksi")
      jumlah: float = Field(..., ge=0, description="Jumlah rupiah")
      tipe: Literal["pemasukan", "pengeluaran"]
  \<close>
\<close>

record TransactionIn =
  tanggal :: nat
  penghuni :: "string option"
  kamar :: "string option"
  keterangan :: string
  jumlah :: real
  tipe :: string

text \<open>A value of a JSON request body; arrays and objects, which no field accepts, are \<open>JOther\<close>.\<close>

datatype json = JNull | JBool bool | JNum real | JStr string | JOther

type_synonym body = "string \<rightharpoonup> json"

text \<open>
  The validators of the fields. A required field (\<open>Field(...)\<close>, or no default) must be
  present; \<open>str\<close> takes a JSON string only; \<open>Optional[str]\<close> with default \<open>None\<close> also
  takes \<open>null\<close> and absence; \<open>Literal\<close> takes exactly the listed strings; \<open>ge=0\<close> is
  tested on the converted number. The library's conversions of a JSON value to a
  date-time and to a float are the parameters \<open>to_datetime\<close> and \<open>to_float\<close>: \<open>None\<close>
  where the value is not of the type.
\<close>

definition required :: "(json \<Rightarrow> 'a option) \<Rightarrow> body \<Rightarrow> string \<Rightarrow> 'a option" where
  "required conv b k = (case b k of None \<Rightarrow> None | Some v \<Rightarrow> conv v)"

fun str_field :: "json \<Rightarrow> string option" where
  "str_field (JStr s) = Some s"
| "str_field v = None"

definition optional_str :: "body \<Rightarrow> string \<Rightarrow> string option option" where
  "optional_str b k =
     (case b k of
        None \<Rightarrow> Some None
      | Some JNull \<Rightarrow> Some None
      | Some (JStr s) \<Rightarrow> Some (Some s)
      | Some v \<Rightarrow> None)"

definition ge0 :: "real \<Rightarrow> real option" where
  "ge0 x = (if x \<ge> 0 then Some x else None)"

definition float_ge0 :: "(json \<Rightarrow> real option) \<Rightarrow> json \<Rightarrow> real option" where
  "float_ge0 to_float v = (case to_float v of None \<Rightarrow> None | Some x \<Rightarrow> ge0 x)"

definition tipe_literals :: "string list" where
  "tipe_literals = [''pemasukan'', ''pengeluaran'']"

definition literal_tipe :: "string \<Rightarrow> string option" where
  "literal_tipe s = (if s \<in> set tipe_literals then Some s else None)"

definition literal_field :: "json \<Rightarrow> string option" where
  "literal_field v = (case str_field v of None \<Rightarrow> None | Some s \<Rightarrow> literal_tipe s)"

definition TransactionIn_fields ::
  "(json \<Rightarrow> nat option) \<Rightarrow> (json \<Rightarrow> real option) \<Rightarrow> body \<Rightarrow> TransactionIn option" where
  "TransactionIn_fields to_datetime to_float b =
     do {
       t \<leftarrow> required to_datetime b ''tanggal'';
       p \<leftarrow> optional_str b ''penghuni'';
       k \<leftarrow> optional_str b ''kamar'';
       ke \<leftarrow> required str_field b ''keterangan'';
       j \<leftarrow> required (float_ge0 to_float) b ''jumlah'';
       ti \<leftarrow> required literal_field b ''tipe'';
       Some \<lparr>tanggal = t, penghuni = p, kamar = k, keterangan = ke, jumlah = j, tipe = ti\<rparr>
     }"

text \<open>
  The framework builds the parameter \<open>tx: TransactionIn\<close> from the request body and
  raises \<open>RequestValidationError\<close> when it cannot.
\<close>

definition TransactionIn_validate ::
  "(json \<Rightarrow> nat option) \<Rightarrow> (json \<Rightarrow> real option) \<Rightarrow> body \<Rightarrow> exn + TransactionIn" where
  "TransactionIn_validate to_datetime to_float b =
     (case TransactionIn_fields to_datetime to_float b of
        None \<Rightarrow> Inl RequestValidationError
      | Some tx \<Rightarrow> Inr tx)"

text \<open>
  \<open>TransactionSchema(**tx.model_dump())\<close>: the class \<open>Transaction\<close> of \<open>schemas.py\<close> has
  the same fields; on values that already have the fields' types it can only reject a
  negative \<open>jumlah\<close> or a \<open>tipe\<close> outside the literals, with the library's own
  \<open>ValidationError\<close>.
\<close>

definition TransactionSchema :: "TransactionIn \<Rightarrow> exn + TransactionIn" where
  "TransactionSchema tx =
     (case (ge0 (jumlah tx), literal_tipe (tipe tx)) of
        (Some j, Some ti) \<Rightarrow> Inr tx
      | other \<Rightarrow> Inl ValidationError)"

text \<open>
  \<^verbatim>\<open>
  def create_transaction(tx: TransactionIn, x_admin_token: Optional[str] = Header(None)):
      if not is_admin(x_admin_token):
          raise HTTPException(status_code=403, detail="Hanya admin yang boleh mengedit")
      _ = TransactionSchema(**tx.model_dump())
      new_id = create_document(COLLECTION, tx)
      return {"id": new_id, "message": "Transaksi berhasil ditambahkan"}
  \<close>
  \<open>create_document\<close> belongs to the module \<open>database\<close>, which is not among the sources: it
  is a parameter that takes the collection name, the record and the store, and gives the
  new identifier or an exception, and the store afterwards.
\<close>

type_synonym create_document_fn =
  "string \<Rightarrow> TransactionIn \<Rightarrow> database option \<Rightarrow> (exn + string) \<times> database option"

definition create_transaction ::
  "string option \<Rightarrow> create_document_fn \<Rightarrow> database option \<Rightarrow> TransactionIn \<Rightarrow> string option
     \<Rightarrow> (exn + string \<times> string) \<times> database option" where
  "create_transaction ADMIN_TOKEN create_document db tx x_admin_token =
     (if \<not> is_admin ADMIN_TOKEN x_admin_token
      then (Inl (HTTPException 403 ''Hanya admin yang boleh mengedit''), db)
      else case TransactionSchema tx of
        Inl e \<Rightarrow> (Inl e, db)
      | Inr checked \<Rightarrow>
          (case create_document COLLECTION tx db of
             (Inl e, db') \<Rightarrow> (Inl e, db')
           | (Inr new_id, db') \<Rightarrow> (Inr (new_id, ''Transaksi berhasil ditambahkan''), db')))"

text \<open>
  The route \<open>POST /api/transactions\<close>: the body is validated into \<open>tx\<close> first, and the
  handler runs only on a \<open>TransactionIn\<close>.
\<close>

definition post_api_transactions ::
  "(json \<Rightarrow> nat option) \<Rightarrow> (json \<Rightarrow> real option) \<Rightarrow> string option \<Rightarrow> create_document_fn
     \<Rightarrow> database option \<Rightarrow> body \<Rightarrow> string option
     \<Rightarrow> (exn + string \<times> string) \<times> database option" where
  "post_api_transactions to_datetime to_float ADMIN_TOKEN create_document db b x_admin_token =
     (case TransactionIn_validate to_datetime to_float b of
        Inl e \<Rightarrow> (Inl e, db)
      | Inr tx \<Rightarrow> create_transaction ADMIN_TOKEN create_document db tx x_admin_token)"

section \<open>Listing transactions\<close>

text \<open>
  \<open>get_documents\<close> also belongs to the missing module \<open>database\<close>: it is a parameter that
  takes the collection name, the filter and the limit, and gives the documents or an
  exception.
\<close>

type_synonym get_documents_fn = "string \<Rightarrow> doc \<Rightarrow> int option \<Rightarrow> exn + doc list"

definition datetime_min :: nat where
  "datetime_min = 0"

definition sort_key_doc :: "doc \<Rightarrow> pyval" where
  \<comment> \<open>\<open>d.get("tanggal") or d.get("created_at") or datetime.min\<close>\<close>
  "sort_key_doc d =
     py_or (py_or (py_get d ''tanggal'') (py_get d ''created_at'')) (PDatetime datetime_min)"

text \<open>
  \<open>a < b\<close> on Python values: defined between two values of one kind, \<open>TypeError\<close>
  otherwise (also between \<open>None\<close> and \<open>None\<close>). Strings compare by code point.
\<close>

definition str_lt :: "string \<Rightarrow> string \<Rightarrow> bool" where
  "str_lt a b = ord.lexordp (<) (map (of_char :: char \<Rightarrow> nat) a) (map of_char b)"

fun py_lt :: "pyval \<Rightarrow> pyval \<Rightarrow> exn + bool" where
  "py_lt (PNum a) (PNum b) = Inr (a < b)"
| "py_lt (PStr a) (PStr b) = Inr (str_lt a b)"
| "py_lt (PDatetime a) (PDatetime b) = Inr (a < b)"
| "py_lt (PObjectId a) (PObjectId b) = Inr (str_lt a b)"
| "py_lt a b = Inl TypeError"

text \<open>
  \<open>sorted(xs, key=key, reverse=True)\<close>: a stable sort into descending order that only
  asks \<open>key x < key y\<close>, and raises what a comparison raises. An element goes in front of
  the elements sorted so far whose key is not greater than its own, which keeps the
  elements with equal keys in their first order.
\<close>

fun insert_reverse :: "('a \<Rightarrow> pyval) \<Rightarrow> 'a \<Rightarrow> 'a list \<Rightarrow> exn + 'a list" where
  "insert_reverse key x [] = Inr [x]"
| "insert_reverse key x (y # ys) =
     (case py_lt (key x) (key y) of
        Inl e \<Rightarrow> Inl e
      | Inr True \<Rightarrow>
          (case insert_reverse key x ys of Inl e \<Rightarrow> Inl e | Inr zs \<Rightarrow> Inr (y # zs))
      | Inr False \<Rightarrow> Inr (x # y # ys))"

fun sorted_reverse :: "('a \<Rightarrow> pyval) \<Rightarrow> 'a list \<Rightarrow> exn + 'a list" where
  "sorted_reverse key [] = Inr []"
| "sorted_reverse key (x # xs) =
     (case sorted_reverse key xs of Inl e \<Rightarrow> Inl e | Inr ys \<Rightarrow> insert_reverse key x ys)"

definition normalize_doc :: "(pyval \<Rightarrow> string) \<Rightarrow> doc \<Rightarrow> doc" where
  \<comment> \<open>\<open>d["id"] = str(d.get("_id")); d.pop("_id", None)\<close>\<close>
  "normalize_doc str_other d =
     (d(''id'' \<mapsto> PStr (py_str str_other (py_get d ''_id''))))(''_id'' := None)"

text \<open>
  \<^verbatim>\<open>
  def list_transactions(
      limit: int = Query(100, ge=1, le=500),
      tipe: Optional[str] = Query(None, pattern="^(pemasukan|pengeluaran)$"),
  ):
      filt = {}
      if tipe:
          filt["tipe"] = tipe
      docs = get_documents(COLLECTION, filt, limit)
      def sort_key(d):
          return d.get("tanggal") or d.get("created_at") or datetime.min
      docs_sorted = sorted(docs, key=sort_key, reverse=True)
      result: List[TransactionOut] = []
      for d in docs_sorted:
          d["id"] = str(d.get("_id"))
          d.pop("_id", None)
          result.append(d)
      return {"items": result}
  \<close>
\<close>

definition list_filter :: "string option \<Rightarrow> doc" where
  "list_filter tipe_arg =
     (if py_bool_opt_str tipe_arg
      then (case tipe_arg of None \<Rightarrow> Map.empty | Some t \<Rightarrow> [''tipe'' \<mapsto> PStr t])
      else Map.empty)"

definition list_transactions ::
  "get_documents_fn \<Rightarrow> (pyval \<Rightarrow> string) \<Rightarrow> int \<Rightarrow> string option \<Rightarrow> exn + doc list" where
  "list_transactions get_documents str_other limit tipe_arg =
     (case get_documents COLLECTION (list_filter tipe_arg) (Some limit) of
        Inl e \<Rightarrow> Inl e
      | Inr docs \<Rightarrow>
          (case sorted_reverse sort_key_doc docs of
             Inl e \<Rightarrow> Inl e
           | Inr docs_sorted \<Rightarrow> Inr (map (normalize_doc str_other) docs_sorted)))"

text \<open>
  The route \<open>GET /api/transactions\<close>: the framework checks the query against the two
  \<open>Query\<close> declarations before the handler runs. The pattern is anchored at both ends
  (the validation library's matcher takes \<open>$\<close> as the end of the text), so it matches
  exactly the two words. A limit that is given is an integer here.
\<close>

definition query_limit :: "int option \<Rightarrow> int option" where
  \<comment> \<open>\<open>Query(100, ge=1, le=500)\<close>\<close>
  "query_limit q =
     (case q of
        None \<Rightarrow> Some 100
      | Some l \<Rightarrow> if 1 \<le> l \<and> l \<le> 500 then Some l else None)"

definition pattern_tipe :: "string \<Rightarrow> bool" where
  \<comment> \<open>\<open>^(pemasukan|pengeluaran)$\<close>\<close>
  "pattern_tipe s = (s = ''pemasukan'' \<or> s = ''pengeluaran'')"

definition query_tipe :: "string option \<Rightarrow> string option option" where
  \<comment> \<open>\<open>Query(None, pattern=...)\<close>\<close>
  "query_tipe q =
     (case q of
        None \<Rightarrow> Some None
      | Some s \<Rightarrow> if pattern_tipe s then Some (Some s) else None)"

definition get_api_transactions ::
  "get_documents_fn \<Rightarrow> (pyval \<Rightarrow> string) \<Rightarrow> int option \<Rightarrow> string option \<Rightarrow> exn + doc list" where
  "get_api_transactions get_documents str_other limit_q tipe_q =
     (case query_limit limit_q of
        None \<Rightarrow> Inl RequestValidationError
      | Some limit \<Rightarrow>
          (case query_tipe tipe_q of
             None \<Rightarrow> Inl RequestValidationError
           | Some tipe_arg \<Rightarrow> list_transactions get_documents str_other limit tipe_arg))"

section \<open>Statistics\<close>

text \<open>
  \<open>sum(vs)\<close> starts from the integer \<open>0\<close> and adds the values from left to right; adding
  anything but a number to a number raises \<open>TypeError\<close>.
\<close>

fun py_sum_from :: "real \<Rightarrow> pyval list \<Rightarrow> exn + real" where
  "py_sum_from acc [] = Inr acc"
| "py_sum_from acc (PNum x # vs) = py_sum_from (acc + x) vs"
| "py_sum_from acc (v # vs) = Inl TypeError"

definition py_sum :: "pyval list \<Rightarrow> exn + real" where
  "py_sum vs = py_sum_from 0 vs"

record StatsOut =
  pemasukan :: real
  pengeluaran :: real
  saldo :: real

text \<open>
  \<^verbatim>\<open>
  def stats():
      docs = get_documents(COLLECTION, {}, None)
      pemasukan = sum(d.get("jumlah", 0) for d in docs if d.get("tipe") == "pemasukan")
      pengeluaran = sum(d.get("jumlah", 0) for d in docs if d.get("tipe") == "pengeluaran")
      saldo = pemasukan - pengeluaran
      return {"pemasukan": pemasukan, "pengeluaran": pengeluaran, "saldo": saldo}
  \<close>
\<close>

definition jumlah_of_tipe :: "string \<Rightarrow> doc list \<Rightarrow> pyval list" where
  \<comment> \<open>the generator \<open>d.get("jumlah", 0) for d in docs if d.get("tipe") == t\<close>\<close>
  "jumlah_of_tipe t docs =
     map (\<lambda>d. py_get_default d ''jumlah'' (PNum 0))
         (filter (\<lambda>d. py_get d ''tipe'' = PStr t) docs)"

definition stats :: "get_documents_fn \<Rightarrow> exn + StatsOut" where
  "stats get_documents =
     (case get_documents COLLECTION Map.empty None of
        Inl e \<Rightarrow> Inl e
      | Inr docs \<Rightarrow>
          (case py_sum (jumlah_of_tipe ''pemasukan'' docs) of
             Inl e \<Rightarrow> Inl e
           | Inr pem \<Rightarrow>
               (case py_sum (jumlah_of_tipe ''pengeluaran'' docs) of
                  Inl e \<Rightarrow> Inl e
                | Inr peng \<Rightarrow>
                    Inr \<lparr>pemasukan = pem, pengeluaran = peng, saldo = pem - peng\<rparr>)))"

section \<open>Notions of the specification\<close>

text \<open>
  The data model gives \<open>jumlah\<close> a numeric type: a document is well-shaped for the
  statistics when its \<open>jumlah\<close>, if it has one, is a number.
\<close>

definition jumlah_numeric :: "doc \<Rightarrow> bool" where
  "jumlah_numeric d = (case d ''jumlah'' of None \<Rightarrow> True | Some (PNum x) \<Rightarrow> True | Some v \<Rightarrow> False)"

text \<open>
  The sum the specification describes: the \<open>jumlah\<close> of the records whose \<open>tipe\<close> is the
  given word, a missing \<open>jumlah\<close> counting as \<open>0\<close>.
\<close>

definition spec_amount :: "doc \<Rightarrow> real" where
  "spec_amount d = (case d ''jumlah'' of None \<Rightarrow> 0 | Some (PNum x) \<Rightarrow> x | Some v \<Rightarrow> 0)"

definition spec_total :: "string \<Rightarrow> doc list \<Rightarrow> real" where
  "spec_total t docs = sum_list (map spec_amount (filter (\<lambda>d. d ''tipe'' = Some (PStr t)) docs))"

text \<open>
  The data model gives \<open>tanggal\<close> and \<open>created_at\<close> the type date-time, and lets them be
  absent (or null) in a stored document.
\<close>

fun date_or_absent :: "pyval option \<Rightarrow> bool" where
  "date_or_absent None = True"
| "date_or_absent (Some PNone) = True"
| "date_or_absent (Some (PDatetime t)) = True"
| "date_or_absent (Some v) = False"

definition dated :: "doc \<Rightarrow> bool" where
  "dated d = (date_or_absent (d ''tanggal'') \<and> date_or_absent (d ''created_at''))"

text \<open>
  The sort key the specification describes: \<open>tanggal\<close>, \<open>created_at\<close> when \<open>tanggal\<close> is
  missing, the minimum date-time when both are.
\<close>

definition spec_sort_key :: "doc \<Rightarrow> nat" where
  "spec_sort_key d =
     (case d ''tanggal'' of
        Some (PDatetime t) \<Rightarrow> t
      | other \<Rightarrow> (case d ''created_at'' of Some (PDatetime t) \<Rightarrow> t | other' \<Rightarrow> datetime_min))"

text \<open>
  The bodies the specification says are rejected: \<open>jumlah\<close> missing, ill-typed or negative;
  \<open>tipe\<close> missing or not one of the two words; \<open>tanggal\<close> missing or ill-typed;
  \<open>keterangan\<close> missing or not a string.
\<close>

definition invalid_body :: "(json \<Rightarrow> nat option) \<Rightarrow> (json \<Rightarrow> real option) \<Rightarrow> body \<Rightarrow> bool" where
  "invalid_body to_datetime to_float b =
     ((case b ''jumlah'' of
         None \<Rightarrow> True
       | Some v \<Rightarrow> (case to_float v of None \<Rightarrow> True | Some x \<Rightarrow> x < 0))
    \<or> (case b ''tipe'' of
         Some (JStr s) \<Rightarrow> s \<noteq> ''pemasukan'' \<and> s \<noteq> ''pengeluaran''
       | other \<Rightarrow> True)
    \<or> (case b ''tanggal'' of None \<Rightarrow> True | Some v \<Rightarrow> to_datetime v = None)
    \<or> (case b ''keterangan'' of Some (JStr s) \<Rightarrow> False | other \<Rightarrow> True))"

text \<open>
  The two answers the handlers raise, by name.
\<close>

definition forbidden :: exn where
  "forbidden = HTTPException 403 ''Hanya admin yang boleh mengedit''"

definition not_found :: exn where
  "not_found = HTTPException 404 ''Transaksi tidak ditemukan''"

section \<open>A concrete store and concrete requests\<close>

text \<open>
  Instances of the parameters, and sample data, on which the theorems below are
  evaluated: an identifier constructor that takes 24 lower-case hexadecimal digits,
  conversions that take a JSON number as a time stamp and as an amount, a store with one
  document, and three documents of which one has neither a date nor an amount.
\<close>

definition hex_digit :: "char \<Rightarrow> bool" where
  "hex_digit c = (c \<in> set ''0123456789abcdef'')"

definition ObjectId_hex :: "string \<Rightarrow> pyval option" where
  "ObjectId_hex s = (if length s = 24 \<and> list_all hex_digit s then Some (PObjectId s) else None)"

fun json_timestamp :: "json \<Rightarrow> nat option" where
  "json_timestamp (JNum x) = (if 0 \<le> x then Some (nat \<lfloor>x\<rfloor>) else None)"
| "json_timestamp v = None"

fun json_number :: "json \<Rightarrow> real option" where
  "json_number (JNum x) = Some x"
| "json_number v = None"

definition sample_id :: string where
  "sample_id = ''65a1b2c3d4e5f60718293a4b''"

definition doc_a :: doc where
  "doc_a = [''_id'' \<mapsto> PObjectId sample_id, ''tanggal'' \<mapsto> PDatetime 10,
            ''jumlah'' \<mapsto> PNum 50000, ''tipe'' \<mapsto> PStr ''pemasukan'']"

definition doc_b :: doc where
  "doc_b = [''_id'' \<mapsto> PStr ''b'', ''created_at'' \<mapsto> PDatetime 30,
            ''jumlah'' \<mapsto> PNum 20000, ''tipe'' \<mapsto> PStr ''pengeluaran'']"

definition doc_c :: doc where
  "doc_c = [''tipe'' \<mapsto> PStr ''pemasukan'']"

definition sample_docs :: "doc list" where
  "sample_docs = [doc_a, doc_b, doc_c]"

definition sample_get_documents :: get_documents_fn where
  "sample_get_documents name filt limit = Inr sample_docs"

definition sample_str_other :: "pyval \<Rightarrow> string" where
  "sample_str_other v = ''?''"

definition sample_db :: database where
  "sample_db name = (if name = COLLECTION then [PObjectId sample_id \<mapsto> doc_a] else Map.empty)"

definition sample_create_document :: create_document_fn where
  "sample_create_document name tx db =
     (case db of
        None \<Rightarrow> (Inl (PyException ''Database not available''), db)
      | Some dbv \<Rightarrow> (Inr sample_id, db))"

definition negative_body :: body where
  "negative_body = [''tanggal'' \<mapsto> JNum 1704067200, ''keterangan'' \<mapsto> JStr ''dues'',
                    ''jumlah'' \<mapsto> JNum (- 5), ''tipe'' \<mapsto> JStr ''pemasukan'']"

definition dues_body :: body where
  "dues_body = [''tanggal'' \<mapsto> JNum 1704067200, ''keterangan'' \<mapsto> JStr ''dues'',
                ''jumlah'' \<mapsto> JNum 50000, ''tipe'' \<mapsto> JStr ''pemasukan'']"

definition empty_body :: body where
  "empty_body = Map.empty"

definition dues_tx :: TransactionIn where
  "dues_tx = \<lparr>tanggal = 1704067200, penghuni = None, kamar = None, keterangan = ''dues'',
              jumlah = 50000, tipe = ''pemasukan''\<rparr>"

section \<open>Statistics: the sums\<close>

lemma py_sum_from_numeric:
  "\<forall>v\<in>set vs. \<exists>x. v = PNum x \<Longrightarrow>
   py_sum_from acc vs = Inr (acc + sum_list (map (\<lambda>v. case v of PNum x \<Rightarrow> x | _ \<Rightarrow> 0) vs))"
proof (induction vs arbitrary: acc)
  case Nil
  then show ?case by simp
next
  case (Cons v vs)
  then obtain x where v: "v = PNum x" by auto
  from Cons.prems have "\<forall>v\<in>set vs. \<exists>x. v = PNum x" by simp
  from Cons.IH [OF this, of "acc + x"] show ?case by (simp add: v add.assoc)
qed

lemma jumlah_default_numeric:
  "jumlah_numeric d \<Longrightarrow> \<exists>x. py_get_default d ''jumlah'' (PNum 0) = PNum x"
  by (cases "d ''jumlah''"; cases "the (d ''jumlah'')")
     (simp_all add: jumlah_numeric_def py_get_default_def)

lemma jumlah_of_tipe_numeric:
  "\<forall>d\<in>set docs. jumlah_numeric d \<Longrightarrow> \<forall>v\<in>set (jumlah_of_tipe t docs). \<exists>x. v = PNum x"
  using jumlah_default_numeric by (auto simp: jumlah_of_tipe_def)

lemma py_get_eq_PStr: "(py_get d k = PStr t) = (d k = Some (PStr t))"
  by (simp add: py_get_def split: option.splits)

lemma jumlah_of_tipe_total:
  "\<forall>d\<in>set docs. jumlah_numeric d \<Longrightarrow>
   sum_list (map (\<lambda>v. case v of PNum x \<Rightarrow> x | _ \<Rightarrow> 0) (jumlah_of_tipe t docs)) = spec_total t docs"
proof (induction docs)
  case Nil
  show ?case by (simp add: jumlah_of_tipe_def spec_total_def)
next
  case (Cons d docs)
  then have IH: "sum_list (map (\<lambda>v. case v of PNum x \<Rightarrow> x | _ \<Rightarrow> 0) (jumlah_of_tipe t docs)) = spec_total t docs"
    by simp
  from Cons.prems have "jumlah_numeric d" by simp
  then have "(case py_get_default d ''jumlah'' (PNum 0) of PNum x \<Rightarrow> x | _ \<Rightarrow> 0) = spec_amount d"
    by (simp add: jumlah_numeric_def py_get_default_def spec_amount_def split: option.splits pyval.splits)
  with IH show ?case
    by (simp add: jumlah_of_tipe_def spec_total_def py_get_eq_PStr)
qed

lemma py_sum_jumlah:
  "\<forall>d\<in>set docs. jumlah_numeric d \<Longrightarrow> py_sum (jumlah_of_tipe t docs) = Inr (spec_total t docs)"
  using py_sum_from_numeric [OF jumlah_of_tipe_numeric, of docs 0 t] jumlah_of_tipe_total [of docs t]
  by (simp add: py_sum_def)

text \<open>
  C1. When every \<open>jumlah\<close> that is present is a number, \<open>stats\<close> answers with
  \<open>pemasukan\<close> the sum of \<open>jumlah\<close> (a missing one counting as \<open>0\<close>) over the records
  whose \<open>tipe\<close> is \<open>pemasukan\<close>, with \<open>pengeluaran\<close> the same sum over the records whose
  \<open>tipe\<close> is \<open>pengeluaran\<close>, and with \<open>saldo\<close> their difference; for no records all
  three are \<open>0\<close>.
\<close>

theorem stats_totals:
  assumes "get_documents COLLECTION Map.empty None = Inr docs"
    and "\<forall>d\<in>set docs. jumlah_numeric d"
  shows "stats get_documents =
           Inr \<lparr>pemasukan = spec_total ''pemasukan'' docs,
                pengeluaran = spec_total ''pengeluaran'' docs,
                saldo = spec_total ''pemasukan'' docs - spec_total ''pengeluaran'' docs\<rparr>
         \<and> (docs = [] \<longrightarrow>
              stats get_documents = Inr \<lparr>pemasukan = 0, pengeluaran = 0, saldo = 0\<rparr>)"
  using assms by (auto simp: stats_def py_sum_jumlah spec_total_def)

section \<open>Listing: order and identifiers\<close>

lemma insert_reverse_dates:
  assumes "\<forall>y\<in>set ys. key y = PDatetime (tm y)" and "key x = PDatetime (tm x)"
    and "sorted_wrt (\<lambda>a b. tm b \<le> tm a) ys"
  shows "\<exists>zs. insert_reverse key x ys = Inr zs \<and> set zs = insert x (set ys)
           \<and> length zs = Suc (length ys) \<and> sorted_wrt (\<lambda>a b. tm b \<le> tm a) zs"
  using assms
proof (induction ys)
  case Nil
  then show ?case by simp
next
  case (Cons y ys)
  have ky: "key y = PDatetime (tm y)" using Cons.prems(1) by simp
  show ?case
  proof (cases "tm x < tm y")
    case True
    from Cons.prems have "\<forall>y\<in>set ys. key y = PDatetime (tm y)"
      and "sorted_wrt (\<lambda>a b. tm b \<le> tm a) ys" by simp_all
    from Cons.IH [OF this(1) Cons.prems(2) this(2)]
    obtain zs where zs: "insert_reverse key x ys = Inr zs" "set zs = insert x (set ys)"
      "length zs = Suc (length ys)" "sorted_wrt (\<lambda>a b. tm b \<le> tm a) zs" by blast
    from Cons.prems(3) have "\<forall>b\<in>set ys. tm b \<le> tm y" by simp
    with True zs(2) have "\<forall>b\<in>set zs. tm b \<le> tm y" by auto
    with zs True ky Cons.prems(2) show ?thesis by auto
  next
    case False
    with Cons.prems ky show ?thesis by auto
  qed
qed

lemma sorted_reverse_dates:
  assumes "\<forall>x\<in>set xs. key x = PDatetime (tm x)"
  shows "\<exists>ys. sorted_reverse key xs = Inr ys \<and> set ys = set xs \<and> length ys = length xs
           \<and> sorted_wrt (\<lambda>a b. tm b \<le> tm a) ys"
  using assms
proof (induction xs)
  case Nil
  then show ?case by simp
next
  case (Cons x xs)
  then obtain ys where ys: "sorted_reverse key xs = Inr ys" "set ys = set xs"
    "length ys = length xs" "sorted_wrt (\<lambda>a b. tm b \<le> tm a) ys" by auto
  from Cons.prems ys(2) have "\<forall>y\<in>set ys. key y = PDatetime (tm y)" "key x = PDatetime (tm x)"
    by simp_all
  from insert_reverse_dates [OF this ys(4)] ys show ?case by auto
qed

lemma insert_reverse_set:
  "insert_reverse key x ys = Inr zs \<Longrightarrow> set zs = insert x (set ys)"
proof (induction ys arbitrary: zs)
  case Nil
  then show ?case by auto
next
  case (Cons y ys)
  show ?case
  proof (cases "py_lt (key x) (key y)")
    case (Inl e)
    with Cons.prems show ?thesis by simp
  next
    case (Inr b)
    show ?thesis
    proof (cases b)
      case True
      with Inr Cons.prems obtain ws where ws: "insert_reverse key x ys = Inr ws" "zs = y # ws"
        by (cases "insert_reverse key x ys") auto
      from Cons.IH [OF ws(1)] ws(2) show ?thesis by auto
    next
      case False
      with Inr Cons.prems show ?thesis by auto
    qed
  qed
qed

lemma sorted_reverse_set:
  "sorted_reverse key xs = Inr ys \<Longrightarrow> set ys = set xs"
proof (induction xs arbitrary: ys)
  case Nil
  then show ?case by simp
next
  case (Cons x xs)
  then obtain ws where ws: "sorted_reverse key xs = Inr ws" "insert_reverse key x ws = Inr ys"
    by (cases "sorted_reverse key xs") auto
  from Cons.IH [OF ws(1)] insert_reverse_set [OF ws(2)] show ?case by simp
qed

lemma date_or_absent_get:
  "date_or_absent (d k) \<Longrightarrow> py_get d k = PNone \<or> (\<exists>t. d k = Some (PDatetime t) \<and> py_get d k = PDatetime t)"
  by (cases "d k" rule: date_or_absent.cases) (simp_all add: py_get_def)

lemma date_or_absent_spec:
  "date_or_absent (d k) \<Longrightarrow> py_get d k = PNone \<Longrightarrow> (case d k of Some (PDatetime t) \<Rightarrow> f t | other \<Rightarrow> g) = g"
  by (cases "d k" rule: date_or_absent.cases) (simp_all add: py_get_def)

lemma sort_key_dated: "dated d \<Longrightarrow> sort_key_doc d = PDatetime (spec_sort_key d)"
proof -
  assume a: "dated d"
  then have t: "date_or_absent (d ''tanggal'')" and c: "date_or_absent (d ''created_at'')"
    by (simp_all add: dated_def)
  from date_or_absent_get [of d "''tanggal''"] t
  have "py_get d ''tanggal'' = PNone \<or> (\<exists>t. d ''tanggal'' = Some (PDatetime t) \<and> py_get d ''tanggal'' = PDatetime t)" by simp
  then show ?thesis
  proof
    assume n: "py_get d ''tanggal'' = PNone"
    from date_or_absent_get [of d "''created_at''"] c
    have "py_get d ''created_at'' = PNone \<or> (\<exists>t. d ''created_at'' = Some (PDatetime t) \<and> py_get d ''created_at'' = PDatetime t)" by simp
    then show ?thesis
    proof
      assume m: "py_get d ''created_at'' = PNone"
      show ?thesis
        unfolding sort_key_doc_def spec_sort_key_def
        by (simp add: n m py_or_def date_or_absent_spec [of d "''tanggal''", OF t n] date_or_absent_spec [of d "''created_at''", OF c m])
    next
      assume "\<exists>t. d ''created_at'' = Some (PDatetime t) \<and> py_get d ''created_at'' = PDatetime t"
      then obtain u where u: "d ''created_at'' = Some (PDatetime u)" "py_get d ''created_at'' = PDatetime u"
        by blast
      show ?thesis
        unfolding sort_key_doc_def spec_sort_key_def
        by (simp add: n u py_or_def date_or_absent_spec [of d "''tanggal''", OF t n])
    qed
  next
    assume "\<exists>t. d ''tanggal'' = Some (PDatetime t) \<and> py_get d ''tanggal'' = PDatetime t"
    then obtain u where u: "d ''tanggal'' = Some (PDatetime u)" "py_get d ''tanggal'' = PDatetime u"
      by blast
    show ?thesis
      unfolding sort_key_doc_def spec_sort_key_def by (simp add: u py_or_def)
  qed
qed

lemma normalize_other_field:
  "k \<noteq> ''id'' \<Longrightarrow> k \<noteq> ''_id'' \<Longrightarrow> normalize_doc str_other d k = d k"
  by (simp add: normalize_doc_def)

lemma normalize_tanggal: "normalize_doc str_other d ''tanggal'' = d ''tanggal''"
  by (rule normalize_other_field) simp_all

lemma normalize_created_at: "normalize_doc str_other d ''created_at'' = d ''created_at''"
  by (rule normalize_other_field) simp_all

lemma sort_key_normalize: "sort_key_doc (normalize_doc str_other d) = sort_key_doc d"
  by (simp only: sort_key_doc_def py_get_def normalize_tanggal normalize_created_at)

lemma spec_sort_key_normalize: "spec_sort_key (normalize_doc str_other d) = spec_sort_key d"
  by (simp only: spec_sort_key_def normalize_tanggal normalize_created_at)

lemma get_api_transactions_Inr:
  assumes "get_api_transactions get_documents str_other limit_q tipe_q = Inr items"
  shows "\<exists>limit tipe_arg docs ys.
           query_limit limit_q = Some limit \<and> query_tipe tipe_q = Some tipe_arg
         \<and> get_documents COLLECTION (list_filter tipe_arg) (Some limit) = Inr docs
         \<and> sorted_reverse sort_key_doc docs = Inr ys
         \<and> items = map (normalize_doc str_other) ys"
proof -
  from assms obtain limit where l: "query_limit limit_q = Some limit"
    by (cases "query_limit limit_q") (simp_all add: get_api_transactions_def)
  from assms l obtain tipe_arg where t: "query_tipe tipe_q = Some tipe_arg"
    by (cases "query_tipe tipe_q") (simp_all add: get_api_transactions_def)
  from assms l t have lt: "list_transactions get_documents str_other limit tipe_arg = Inr items"
    by (simp add: get_api_transactions_def)
  then obtain docs where g: "get_documents COLLECTION (list_filter tipe_arg) (Some limit) = Inr docs"
    by (cases "get_documents COLLECTION (list_filter tipe_arg) (Some limit)")
       (simp_all add: list_transactions_def)
  from lt g obtain ys where s: "sorted_reverse sort_key_doc docs = Inr ys"
    by (cases "sorted_reverse sort_key_doc docs") (simp_all add: list_transactions_def)
  from lt g s have "items = map (normalize_doc str_other) ys"
    by (simp add: list_transactions_def)
  with l t g s show ?thesis by blast
qed

text \<open>
  C4. For a valid query and documents whose \<open>tanggal\<close> and \<open>created_at\<close> are date-times
  where present, the list route answers with as many items as the store returned, the
  sort key of each item is \<open>tanggal\<close>, else \<open>created_at\<close>, else the minimum date-time, and
  of two items the earlier one has the greater or equal key.
\<close>

theorem list_sorted_descending:
  assumes "query_limit limit_q = Some limit"
    and "query_tipe tipe_q = Some tipe_arg"
    and "get_documents COLLECTION (list_filter tipe_arg) (Some limit) = Inr docs"
    and "\<forall>d\<in>set docs. dated d"
  shows "\<exists>items. get_api_transactions get_documents str_other limit_q tipe_q = Inr items
           \<and> length items = length docs
           \<and> (\<forall>item\<in>set items. sort_key_doc item = PDatetime (spec_sort_key item))
           \<and> sorted_wrt (\<lambda>a b. spec_sort_key b \<le> spec_sort_key a) items"
proof -
  from assms(4) have "\<forall>d\<in>set docs. sort_key_doc d = PDatetime (spec_sort_key d)"
    by (simp add: sort_key_dated)
  from sorted_reverse_dates [OF this]
  obtain ys where ys: "sorted_reverse sort_key_doc docs = Inr ys" "set ys = set docs"
    "length ys = length docs" "sorted_wrt (\<lambda>a b. spec_sort_key b \<le> spec_sort_key a) ys"
    by blast
  let ?items = "map (normalize_doc str_other) ys"
  have res: "get_api_transactions get_documents str_other limit_q tipe_q = Inr ?items"
    using assms(1-3) ys(1) by (simp add: get_api_transactions_def list_transactions_def)
  have keys: "\<forall>item\<in>set ?items. sort_key_doc item = PDatetime (spec_sort_key item)"
  proof
    fix item assume "item \<in> set ?items"
    then obtain d where d: "d \<in> set ys" "item = normalize_doc str_other d" by auto
    from d(1) ys(2) assms(4) have "dated d" by simp
    from sort_key_dated [OF this] d(2) show "sort_key_doc item = PDatetime (spec_sort_key item)"
      by (simp only: sort_key_normalize spec_sort_key_normalize)
  qed
  have srt: "sorted_wrt (\<lambda>a b. spec_sort_key b \<le> spec_sort_key a) ?items"
    using ys(4) by (simp only: sorted_wrt_map spec_sort_key_normalize)
  have len: "length ?items = length docs" using ys(3) by simp
  from res keys srt len show ?thesis by blast
qed

text \<open>
  C8. Every item the list route returns has no field \<open>_id\<close>, and its field \<open>id\<close> is the
  string \<open>str\<close> makes of the \<open>_id\<close> of a document the store returned; its other fields
  are that document's.
\<close>

theorem list_items_string_id:
  assumes "get_api_transactions get_documents str_other limit_q tipe_q = Inr items"
    and "item \<in> set items"
  shows "item ''_id'' = None
         \<and> (\<exists>limit tipe_arg docs d.
               query_limit limit_q = Some limit \<and> query_tipe tipe_q = Some tipe_arg
             \<and> get_documents COLLECTION (list_filter tipe_arg) (Some limit) = Inr docs
             \<and> d \<in> set docs
             \<and> item ''id'' = Some (PStr (py_str str_other (py_get d ''_id'')))
             \<and> (\<forall>k. k \<noteq> ''id'' \<and> k \<noteq> ''_id'' \<longrightarrow> item k = d k))"
proof -
  from get_api_transactions_Inr [OF assms(1)] obtain limit tipe_arg docs ys where
    q: "query_limit limit_q = Some limit" "query_tipe tipe_q = Some tipe_arg"
    and g: "get_documents COLLECTION (list_filter tipe_arg) (Some limit) = Inr docs"
    and s: "sorted_reverse sort_key_doc docs = Inr ys"
    and i: "items = map (normalize_doc str_other) ys"
    by blast
  from assms(2) i obtain d where d: "d \<in> set ys" "item = normalize_doc str_other d" by auto
  from d(1) sorted_reverse_set [OF s] have m: "d \<in> set docs" by simp
  have a: "item ''_id'' = None" using d(2) by (simp add: normalize_doc_def)
  have b: "item ''id'' = Some (PStr (py_str str_other (py_get d ''_id'')))"
    using d(2) by (simp add: normalize_doc_def)
  have c: "\<forall>k. k \<noteq> ''id'' \<and> k \<noteq> ''_id'' \<longrightarrow> item k = d k"
    using d(2) by (simp add: normalize_other_field)
  from a b c m q g show ?thesis by blast
qed

section \<open>Authorization, creation and deletion\<close>

lemma is_admin_unset: "\<not> is_admin None token"
  by (simp add: is_admin_def py_bool_opt_str_def)

lemma is_admin_empty: "\<not> is_admin (Some []) token"
  by (simp add: is_admin_def py_bool_opt_str_def)

lemma is_admin_differs:
  "token = None \<or> token \<noteq> ADMIN_TOKEN \<or> ADMIN_TOKEN = None \<Longrightarrow> \<not> is_admin ADMIN_TOKEN token"
  by (auto simp: is_admin_def py_bool_opt_str_def)

lemma delete_not_admin:
  "\<not> is_admin ADMIN_TOKEN token \<Longrightarrow>
   delete_transaction ADMIN_TOKEN ObjectId db tx_id token = (Inl forbidden, db)"
  by (simp add: delete_transaction_def forbidden_def)

lemma create_not_admin:
  "\<not> is_admin ADMIN_TOKEN token \<Longrightarrow>
   create_transaction ADMIN_TOKEN create_document db tx token = (Inl forbidden, db)"
  by (simp add: create_transaction_def forbidden_def)

lemma post_invalid:
  "TransactionIn_validate to_datetime to_float b = Inl e \<Longrightarrow>
   post_api_transactions to_datetime to_float ADMIN_TOKEN create_document db b token
     = (Inl RequestValidationError, db)"
  by (cases "TransactionIn_fields to_datetime to_float b")
     (simp_all add: post_api_transactions_def TransactionIn_validate_def)

lemma post_valid:
  "TransactionIn_validate to_datetime to_float b = Inr tx \<Longrightarrow>
   post_api_transactions to_datetime to_float ADMIN_TOKEN create_document db b token
     = create_transaction ADMIN_TOKEN create_document db tx token"
  by (simp add: post_api_transactions_def)

lemma required_Some:
  "required conv b k = Some x \<Longrightarrow> \<exists>v. b k = Some v \<and> conv v = Some x"
  by (cases "b k") (simp_all add: required_def)

lemma float_ge0_Some:
  "float_ge0 to_float v = Some x \<Longrightarrow> to_float v = Some x \<and> 0 \<le> x"
  by (cases "to_float v") (simp_all add: float_ge0_def ge0_def split: if_splits)

lemma literal_tipe_Some:
  "literal_tipe s = Some t \<Longrightarrow> t = s \<and> (s = ''pemasukan'' \<or> s = ''pengeluaran'')"
  by (simp add: literal_tipe_def tipe_literals_def split: if_splits)

lemma literal_field_Some:
  "literal_field v = Some t \<Longrightarrow> v = JStr t \<and> (t = ''pemasukan'' \<or> t = ''pengeluaran'')"
  by (cases v) (auto simp: literal_field_def dest: literal_tipe_Some)

lemma str_field_Some: "str_field v = Some s \<Longrightarrow> v = JStr s"
  by (cases v) simp_all

lemma TransactionIn_fields_Some:
  assumes "TransactionIn_fields to_datetime to_float b = Some tx"
  shows "(\<exists>v. b ''tanggal'' = Some v \<and> to_datetime v = Some (tanggal tx))
       \<and> b ''keterangan'' = Some (JStr (keterangan tx))
       \<and> (\<exists>v. b ''jumlah'' = Some v \<and> to_float v = Some (jumlah tx) \<and> 0 \<le> jumlah tx)
       \<and> b ''tipe'' = Some (JStr (tipe tx))
       \<and> (tipe tx = ''pemasukan'' \<or> tipe tx = ''pengeluaran'')"
proof -
  from assms obtain t p k ke j ti where
    t: "required to_datetime b ''tanggal'' = Some t"
    and ke: "required str_field b ''keterangan'' = Some ke"
    and j: "required (float_ge0 to_float) b ''jumlah'' = Some j"
    and ti: "required literal_field b ''tipe'' = Some ti"
    and tx: "tx = \<lparr>tanggal = t, penghuni = p, kamar = k, keterangan = ke, jumlah = j, tipe = ti\<rparr>"
    by (auto simp: TransactionIn_fields_def bind_eq_Some_conv)
  from required_Some [OF t] have 1: "\<exists>v. b ''tanggal'' = Some v \<and> to_datetime v = Some (tanggal tx)"
    by (simp add: tx)
  from required_Some [OF ke] have 2: "b ''keterangan'' = Some (JStr (keterangan tx))"
    by (auto simp: tx dest: str_field_Some)
  from required_Some [OF j]
  have 3: "\<exists>v. b ''jumlah'' = Some v \<and> to_float v = Some (jumlah tx) \<and> 0 \<le> jumlah tx"
    by (auto simp: tx dest: float_ge0_Some)
  from required_Some [OF ti]
  have 4: "b ''tipe'' = Some (JStr (tipe tx)) \<and> (tipe tx = ''pemasukan'' \<or> tipe tx = ''pengeluaran'')"
    by (auto simp: tx dest: literal_field_Some)
  from 1 2 3 4 show ?thesis by blast
qed

lemma invalid_body_rejected:
  assumes "invalid_body to_datetime to_float b"
  shows "TransactionIn_fields to_datetime to_float b = None"
proof (cases "TransactionIn_fields to_datetime to_float b")
  case None
  then show ?thesis .
next
  case (Some tx)
  from TransactionIn_fields_Some [OF Some] obtain v w where
    "b ''tanggal'' = Some v" "to_datetime v = Some (tanggal tx)"
    "b ''keterangan'' = Some (JStr (keterangan tx))"
    "b ''jumlah'' = Some w" "to_float w = Some (jumlah tx)" "0 \<le> jumlah tx"
    "b ''tipe'' = Some (JStr (tipe tx))" "tipe tx = ''pemasukan'' \<or> tipe tx = ''pengeluaran''"
    by blast
  then have "\<not> invalid_body to_datetime to_float b"
    by (auto simp: invalid_body_def)
  with assms show ?thesis by simp
qed

lemma TransactionSchema_accepts:
  "0 \<le> jumlah tx \<Longrightarrow> tipe tx = ''pemasukan'' \<or> tipe tx = ''pengeluaran'' \<Longrightarrow>
   TransactionSchema tx = Inr tx"
  by (auto simp: TransactionSchema_def ge0_def literal_tipe_def tipe_literals_def)

lemma dues_body_valid: "TransactionIn_validate json_timestamp json_number dues_body = Inr dues_tx"
  by (simp add: TransactionIn_validate_def TransactionIn_fields_def dues_body_def dues_tx_def
        required_def optional_str_def float_ge0_def ge0_def literal_field_def literal_tipe_def
        tipe_literals_def)

lemma negative_body_invalid:
  "TransactionIn_validate json_timestamp json_number negative_body = Inl RequestValidationError"
  by (simp add: TransactionIn_validate_def TransactionIn_fields_def negative_body_def
        required_def optional_str_def float_ge0_def ge0_def literal_field_def literal_tipe_def
        tipe_literals_def)

lemma empty_body_invalid:
  "TransactionIn_validate json_timestamp json_number empty_body = Inl RequestValidationError"
  by (simp add: TransactionIn_validate_def TransactionIn_fields_def empty_body_def required_def)

lemma sample_id_parses: "ObjectId_hex sample_id = Some (PObjectId sample_id)"
  by (simp add: ObjectId_hex_def sample_id_def hex_digit_def)

lemma abc_not_id: "ObjectId_hex ''abc'' = None"
  by (simp add: ObjectId_hex_def)

lemma rahasia_admin: "is_admin (Some ''rahasia'') (Some ''rahasia'')"
  by (simp add: is_admin_def py_bool_opt_str_def)

text \<open>
  C9. With \<open>ADMIN_TOKEN\<close> set to the empty string, \<open>is_admin\<close> is false for every header,
  the empty one included, and both handlers answer 403.
\<close>

theorem empty_secret_denies:
  "\<not> is_admin (Some '''') token
   \<and> \<not> is_admin (Some '''') (Some '''')
   \<and> create_transaction (Some '''') create_document db tx token = (Inl forbidden, db)
   \<and> delete_transaction (Some '''') ObjectId db tx_id token = (Inl forbidden, db)"
  using is_admin_empty create_not_admin delete_not_admin by simp

text \<open>
  C10. With a valid token and an available store, an identifier that \<open>ObjectId\<close> does
  not accept makes the delete handler fail with \<open>InvalidId\<close>: a server error (500), not
  404, and the store is as it was.
\<close>

theorem delete_invalid_id:
  assumes "is_admin ADMIN_TOKEN x_admin_token" and "ObjectId tx_id = None"
  shows "delete_transaction ADMIN_TOKEN ObjectId (Some dbv) tx_id x_admin_token
           = (Inl InvalidId, Some dbv)
         \<and> status_of InvalidId = 500 \<and> InvalidId \<noteq> not_found"
  using assms by (simp add: delete_transaction_def not_found_def)

theorem delete_invalid_id_witness:
  "is_admin (Some ''rahasia'') (Some ''rahasia'') \<and> ObjectId_hex ''abc'' = None
   \<and> delete_transaction (Some ''rahasia'') ObjectId_hex (Some sample_db) ''abc'' (Some ''rahasia'')
        = (Inl InvalidId, Some sample_db)"
  using delete_invalid_id [where ADMIN_TOKEN = "Some ''rahasia''" and x_admin_token = "Some ''rahasia''"
      and ObjectId = ObjectId_hex and tx_id = "''abc''" and dbv = sample_db]
    rahasia_admin abc_not_id
  by simp

text \<open>
  C6. With a valid token and an available store, the delete handler answers 404 exactly
  when the store's deleted count is \<open>0\<close>; deleting an identifier that is not stored
  answers 404 and changes nothing; deleting a stored identifier succeeds, and deleting it
  again answers 404.
\<close>

theorem delete_not_found_iff:
  assumes "is_admin ADMIN_TOKEN x_admin_token"
  shows "(fst (delete_transaction ADMIN_TOKEN ObjectId (Some dbv) tx_id x_admin_token)
            = Inl not_found)
         = (case ObjectId tx_id of
              None \<Rightarrow> False
            | Some oid \<Rightarrow> fst (delete_one oid (dbv COLLECTION)) = 0)
       \<and> (ObjectId tx_id = Some oid \<and> dbv COLLECTION oid = None \<longrightarrow>
            delete_transaction ADMIN_TOKEN ObjectId (Some dbv) tx_id x_admin_token
              = (Inl not_found, Some dbv))
       \<and> (ObjectId tx_id = Some oid \<and> dbv COLLECTION oid \<noteq> None \<longrightarrow>
            fst (delete_transaction ADMIN_TOKEN ObjectId (Some dbv) tx_id x_admin_token)
              = Inr ''Transaksi dihapus''
          \<and> fst (delete_transaction ADMIN_TOKEN ObjectId
                   (snd (delete_transaction ADMIN_TOKEN ObjectId (Some dbv) tx_id x_admin_token))
                   tx_id x_admin_token)
              = Inl not_found)"
proof -
  have 1: "(fst (delete_transaction ADMIN_TOKEN ObjectId (Some dbv) tx_id x_admin_token)
            = Inl not_found)
         = (case ObjectId tx_id of
              None \<Rightarrow> False
            | Some oid \<Rightarrow> fst (delete_one oid (dbv COLLECTION)) = 0)"
    using assms
    by (cases "ObjectId tx_id")
       (auto simp: delete_transaction_def not_found_def delete_one_def split: option.splits)
  have 2: "ObjectId tx_id = Some oid \<and> dbv COLLECTION oid = None \<longrightarrow>
            delete_transaction ADMIN_TOKEN ObjectId (Some dbv) tx_id x_admin_token
              = (Inl not_found, Some dbv)"
    using assms by (simp add: delete_transaction_def not_found_def delete_one_def)
  have 3: "ObjectId tx_id = Some oid \<and> dbv COLLECTION oid \<noteq> None \<longrightarrow>
            fst (delete_transaction ADMIN_TOKEN ObjectId (Some dbv) tx_id x_admin_token)
              = Inr ''Transaksi dihapus''
          \<and> fst (delete_transaction ADMIN_TOKEN ObjectId
                   (snd (delete_transaction ADMIN_TOKEN ObjectId (Some dbv) tx_id x_admin_token))
                   tx_id x_admin_token)
              = Inl not_found"
    using assms by (auto simp: delete_transaction_def not_found_def delete_one_def)
  from 1 2 3 show ?thesis by blast
qed

lemma salah_not_admin: "\<not> is_admin (Some ''rahasia'') (Some ''salah'')"
  by (simp add: is_admin_def py_bool_opt_str_def)

lemma sample_db_has_id: "sample_db COLLECTION (PObjectId sample_id) = Some doc_a"
  by (simp add: sample_db_def)

theorem delete_not_found_iff_witness:
  "is_admin (Some ''rahasia'') (Some ''rahasia'')
   \<and> fst (delete_transaction (Some ''rahasia'') ObjectId_hex (Some sample_db) sample_id
            (Some ''rahasia'')) = Inr ''Transaksi dihapus''
   \<and> fst (delete_transaction (Some ''rahasia'') ObjectId_hex
            (snd (delete_transaction (Some ''rahasia'') ObjectId_hex (Some sample_db) sample_id
                    (Some ''rahasia'')))
            sample_id (Some ''rahasia'')) = Inl not_found"
  using delete_not_found_iff [where ADMIN_TOKEN = "Some ''rahasia''"
      and x_admin_token = "Some ''rahasia''" and ObjectId = ObjectId_hex and tx_id = sample_id
      and dbv = sample_db and oid = "PObjectId sample_id"]
    rahasia_admin sample_id_parses sample_db_has_id
  by simp

text \<open>
  C2, as the code has it. When the header is absent or differs from \<open>ADMIN_TOKEN\<close>, or
  \<open>ADMIN_TOKEN\<close> is unset, every delete request and every create request whose body
  passes validation is answered 403 and the store is unchanged; a create request whose
  body fails validation is answered with the validation error, whatever the token.
\<close>

theorem invalid_token_forbidden:
  assumes "x_admin_token = None \<or> x_admin_token \<noteq> ADMIN_TOKEN \<or> ADMIN_TOKEN = None"
  shows "delete_transaction ADMIN_TOKEN ObjectId db tx_id x_admin_token = (Inl forbidden, db)
       \<and> status_of forbidden = 403
       \<and> (TransactionIn_validate to_datetime to_float b = Inr tx \<longrightarrow>
            post_api_transactions to_datetime to_float ADMIN_TOKEN create_document db b
              x_admin_token = (Inl forbidden, db))
       \<and> (TransactionIn_validate to_datetime to_float b = Inl e \<longrightarrow>
            post_api_transactions to_datetime to_float ADMIN_TOKEN create_document db b
              x_admin_token = (Inl RequestValidationError, db))"
proof -
  from is_admin_differs [OF assms] have n: "\<not> is_admin ADMIN_TOKEN x_admin_token" .
  have 1: "delete_transaction ADMIN_TOKEN ObjectId db tx_id x_admin_token = (Inl forbidden, db)"
    using n by (rule delete_not_admin)
  have 2: "status_of forbidden = 403" by (simp add: forbidden_def)
  have 3: "TransactionIn_validate to_datetime to_float b = Inr tx \<longrightarrow>
            post_api_transactions to_datetime to_float ADMIN_TOKEN create_document db b
              x_admin_token = (Inl forbidden, db)"
    using n by (simp add: post_valid create_not_admin)
  have 4: "TransactionIn_validate to_datetime to_float b = Inl e \<longrightarrow>
            post_api_transactions to_datetime to_float ADMIN_TOKEN create_document db b
              x_admin_token = (Inl RequestValidationError, db)"
    by (simp add: post_invalid)
  from 1 2 3 4 show ?thesis by blast
qed

theorem invalid_token_forbidden_witness:
  "delete_transaction (Some ''rahasia'') ObjectId_hex (Some sample_db) sample_id (Some ''salah'')
     = (Inl forbidden, Some sample_db)
   \<and> post_api_transactions json_timestamp json_number (Some ''rahasia'') sample_create_document
       (Some sample_db) dues_body (Some ''salah'') = (Inl forbidden, Some sample_db)"
  using invalid_token_forbidden [where x_admin_token = "Some ''salah''"
      and ADMIN_TOKEN = "Some ''rahasia''" and ObjectId = ObjectId_hex and db = "Some sample_db"
      and tx_id = sample_id and to_datetime = json_timestamp and to_float = json_number
      and b = dues_body and tx = dues_tx and create_document = sample_create_document]
    dues_body_valid
  by simp

text \<open>
  C2 as stated fails: a create request with a wrong token and a negative \<open>jumlah\<close> is
  answered with the validation error (422), not 403, since the body is validated before
  the handler is called.
\<close>

theorem invalid_token_malformed_body_counterexample:
  "\<not> is_admin (Some ''rahasia'') (Some ''salah'')
   \<and> fst (post_api_transactions json_timestamp json_number (Some ''rahasia'')
            sample_create_document (Some sample_db) negative_body (Some ''salah''))
       = Inl RequestValidationError
   \<and> status_of RequestValidationError \<noteq> 403"
  using salah_not_admin negative_body_invalid by (simp add: post_invalid)

text \<open>
  C3, as the code has it. With \<open>ADMIN_TOKEN\<close> unset, \<open>is_admin\<close> is false for every
  header, both handlers answer 403, and the create route answers 403 for every body that
  passes validation and the validation error for every other body; the store is never
  changed.
\<close>

theorem unset_secret_denies:
  "\<not> is_admin None token
   \<and> delete_transaction None ObjectId db tx_id token = (Inl forbidden, db)
   \<and> create_transaction None create_document db tx token = (Inl forbidden, db)
   \<and> post_api_transactions to_datetime to_float None create_document db b token
       = (case TransactionIn_validate to_datetime to_float b of
            Inl e \<Rightarrow> (Inl RequestValidationError, db)
          | Inr tx' \<Rightarrow> (Inl forbidden, db))"
proof -
  have 4: "post_api_transactions to_datetime to_float None create_document db b token
       = (case TransactionIn_validate to_datetime to_float b of
            Inl e \<Rightarrow> (Inl RequestValidationError, db)
          | Inr tx' \<Rightarrow> (Inl forbidden, db))"
    by (cases "TransactionIn_validate to_datetime to_float b")
       (simp_all add: post_invalid post_valid create_not_admin is_admin_unset)
  with is_admin_unset delete_not_admin create_not_admin show ?thesis by simp
qed

text \<open>
  C3 as stated fails: with \<open>ADMIN_TOKEN\<close> unset, a create request with an empty body is
  answered with the validation error, not 403.
\<close>

theorem unset_secret_malformed_body_counterexample:
  "fst (post_api_transactions json_timestamp json_number None sample_create_document
          (Some sample_db) empty_body None) = Inl RequestValidationError
   \<and> Inl RequestValidationError \<noteq> (Inl forbidden :: exn + string \<times> string)"
  using empty_body_invalid by (simp add: post_invalid forbidden_def)

text \<open>
  C5. A body that the specification calls invalid is answered with the validation error
  (422) and the store is unchanged, for every token; a record that validation accepts
  has \<open>jumlah \<ge> 0\<close> and a \<open>tipe\<close> among the two words; and whenever the create route
  succeeds, the record given to \<open>create_document\<close> is one validation accepted, with
  \<open>jumlah \<ge> 0\<close>.
\<close>

theorem create_rejects_invalid_body:
  "(invalid_body to_datetime to_float b \<longrightarrow>
      post_api_transactions to_datetime to_float ADMIN_TOKEN create_document db b x_admin_token
        = (Inl RequestValidationError, db)
      \<and> status_of RequestValidationError = 422)
   \<and> (TransactionIn_validate to_datetime to_float b = Inr tx \<longrightarrow>
        0 \<le> jumlah tx \<and> (tipe tx = ''pemasukan'' \<or> tipe tx = ''pengeluaran''))
   \<and> (post_api_transactions to_datetime to_float ADMIN_TOKEN create_document db b x_admin_token
        = (Inr r, db') \<longrightarrow>
        (\<exists>tx'. TransactionIn_validate to_datetime to_float b = Inr tx' \<and> 0 \<le> jumlah tx'
           \<and> is_admin ADMIN_TOKEN x_admin_token
           \<and> create_document COLLECTION tx' db = (Inr (fst r), db')))"
proof -
  have 1: "invalid_body to_datetime to_float b \<longrightarrow>
      post_api_transactions to_datetime to_float ADMIN_TOKEN create_document db b x_admin_token
        = (Inl RequestValidationError, db)
      \<and> status_of RequestValidationError = 422"
    by (simp add: post_api_transactions_def TransactionIn_validate_def invalid_body_rejected)
  have acc: "\<And>t. TransactionIn_validate to_datetime to_float b = Inr t \<Longrightarrow>
        0 \<le> jumlah t \<and> (tipe t = ''pemasukan'' \<or> tipe t = ''pengeluaran'')"
  proof -
    fix t assume "TransactionIn_validate to_datetime to_float b = Inr t"
    then have "TransactionIn_fields to_datetime to_float b = Some t"
      by (cases "TransactionIn_fields to_datetime to_float b")
         (simp_all add: TransactionIn_validate_def)
    from TransactionIn_fields_Some [OF this]
    show "0 \<le> jumlah t \<and> (tipe t = ''pemasukan'' \<or> tipe t = ''pengeluaran'')" by blast
  qed
  have 3: "post_api_transactions to_datetime to_float ADMIN_TOKEN create_document db b x_admin_token
        = (Inr r, db') \<longrightarrow>
        (\<exists>tx'. TransactionIn_validate to_datetime to_float b = Inr tx' \<and> 0 \<le> jumlah tx'
           \<and> is_admin ADMIN_TOKEN x_admin_token
           \<and> create_document COLLECTION tx' db = (Inr (fst r), db'))"
  proof
    assume p: "post_api_transactions to_datetime to_float ADMIN_TOKEN create_document db b
                 x_admin_token = (Inr r, db')"
    then obtain t where t: "TransactionIn_validate to_datetime to_float b = Inr t"
      by (cases "TransactionIn_validate to_datetime to_float b")
         (simp_all add: post_api_transactions_def)
    with p have c: "create_transaction ADMIN_TOKEN create_document db t x_admin_token = (Inr r, db')"
      by (simp add: post_valid)
    then have a: "is_admin ADMIN_TOKEN x_admin_token"
      by (auto simp: create_transaction_def split: if_splits)
    from acc [OF t] have s: "TransactionSchema t = Inr t"
      by (simp add: TransactionSchema_accepts)
    from c a s have "create_document COLLECTION t db = (Inr (fst r), db')"
      by (cases "create_document COLLECTION t db"; cases "fst (create_document COLLECTION t db)")
         (auto simp: create_transaction_def)
    with t a acc [OF t] show "\<exists>tx'. TransactionIn_validate to_datetime to_float b = Inr tx'
           \<and> 0 \<le> jumlah tx' \<and> is_admin ADMIN_TOKEN x_admin_token
           \<and> create_document COLLECTION tx' db = (Inr (fst r), db')" by blast
  qed
  from 1 acc 3 show ?thesis by blast
qed

lemma negative_body_is_invalid: "invalid_body json_timestamp json_number negative_body"
  by (simp add: invalid_body_def negative_body_def)

theorem create_rejects_invalid_body_witness:
  "invalid_body json_timestamp json_number negative_body
   \<and> post_api_transactions json_timestamp json_number (Some ''rahasia'') sample_create_document
        (Some sample_db) negative_body (Some ''rahasia'')
       = (Inl RequestValidationError, Some sample_db)
   \<and> TransactionIn_validate json_timestamp json_number dues_body = Inr dues_tx
   \<and> 0 \<le> jumlah dues_tx"
  using create_rejects_invalid_body [where to_datetime = json_timestamp and to_float = json_number
      and b = negative_body and ADMIN_TOKEN = "Some ''rahasia''"
      and create_document = sample_create_document and db = "Some sample_db"
      and x_admin_token = "Some ''rahasia''"]
    create_rejects_invalid_body [where to_datetime = json_timestamp and to_float = json_number
      and b = dues_body and tx = dues_tx]
    negative_body_is_invalid dues_body_valid
  by simp

text \<open>
  C7. A limit below 1 or above 500, or a \<open>tipe\<close> that is neither word, makes the list
  route fail with the validation error (422); so does the limit \<open>0\<close>; an omitted limit
  is the limit \<open>100\<close>.
\<close>

theorem list_query_validation:
  "((\<exists>l. limit_q = Some l \<and> (l < 1 \<or> 500 < l))
      \<or> (\<exists>s. tipe_q = Some s \<and> s \<noteq> ''pemasukan'' \<and> s \<noteq> ''pengeluaran'') \<longrightarrow>
      get_api_transactions get_documents str_other limit_q tipe_q = Inl RequestValidationError)
   \<and> get_api_transactions get_documents str_other (Some 0) tipe_q = Inl RequestValidationError
   \<and> status_of RequestValidationError = 422
   \<and> get_api_transactions get_documents str_other None tipe_q
       = get_api_transactions get_documents str_other (Some 100) tipe_q"
  by (auto simp: get_api_transactions_def query_limit_def query_tipe_def pattern_tipe_def
           split: option.splits)

theorem list_query_validation_witness:
  "get_api_transactions sample_get_documents sample_str_other (Some 501) None
     = Inl RequestValidationError
   \<and> get_api_transactions sample_get_documents sample_str_other None (Some ''lainnya'')
     = Inl RequestValidationError"
  using list_query_validation [where limit_q = "Some 501" and tipe_q = None
      and get_documents = sample_get_documents and str_other = sample_str_other]
    list_query_validation [where limit_q = None and tipe_q = "Some ''lainnya''"
      and get_documents = sample_get_documents and str_other = sample_str_other]
  by simp

lemma sample_docs_numeric: "\<forall>d\<in>set sample_docs. jumlah_numeric d"
  by (simp add: sample_docs_def doc_a_def doc_b_def doc_c_def jumlah_numeric_def)

lemma sample_docs_dated: "\<forall>d\<in>set sample_docs. dated d"
  by (simp add: sample_docs_def doc_a_def doc_b_def doc_c_def dated_def)

lemma sample_totals:
  "spec_total ''pemasukan'' sample_docs = 50000 \<and> spec_total ''pengeluaran'' sample_docs = 20000"
  by (simp add: spec_total_def spec_amount_def sample_docs_def doc_a_def doc_b_def doc_c_def)

theorem stats_totals_witness:
  "stats sample_get_documents = Inr \<lparr>pemasukan = 50000, pengeluaran = 20000, saldo = 30000\<rparr>"
  using stats_totals [where get_documents = sample_get_documents and docs = sample_docs]
    sample_docs_numeric sample_totals
  by (simp add: sample_get_documents_def)

lemma sample_sort_keys:
  "sort_key_doc doc_a = PDatetime 10 \<and> sort_key_doc doc_b = PDatetime 30 \<and> sort_key_doc doc_c = PDatetime 0"
  by (simp add: sort_key_doc_def py_or_def py_get_def doc_a_def doc_b_def doc_c_def datetime_min_def)

lemma sample_list_result:
  "get_api_transactions sample_get_documents sample_str_other None None
     = Inr [normalize_doc sample_str_other doc_b, normalize_doc sample_str_other doc_a,
            normalize_doc sample_str_other doc_c]"
  by (simp add: get_api_transactions_def query_limit_def query_tipe_def list_transactions_def
        sample_get_documents_def sample_docs_def sample_sort_keys)

theorem list_sorted_descending_witness:
  "\<exists>items. get_api_transactions sample_get_documents sample_str_other None None = Inr items
     \<and> length items = length sample_docs
     \<and> sorted_wrt (\<lambda>a b. spec_sort_key b \<le> spec_sort_key a) items"
proof -
  have "query_limit None = Some 100" and "query_tipe None = Some None"
    and "sample_get_documents COLLECTION (list_filter None) (Some 100) = Inr sample_docs"
    by (simp_all add: query_limit_def query_tipe_def sample_get_documents_def)
  with sample_docs_dated
    list_sorted_descending [where limit_q = None and limit = 100 and tipe_q = None
      and tipe_arg = None and get_documents = sample_get_documents and docs = sample_docs
      and str_other = sample_str_other]
  show ?thesis by blast
qed

theorem list_items_string_id_witness:
  "normalize_doc sample_str_other doc_a ''_id'' = None
   \<and> normalize_doc sample_str_other doc_a ''id'' = Some (PStr sample_id)"
  using list_items_string_id [where get_documents = sample_get_documents
      and str_other = sample_str_other and limit_q = None and tipe_q = None
      and items = "[normalize_doc sample_str_other doc_b, normalize_doc sample_str_other doc_a,
                    normalize_doc sample_str_other doc_c]"
      and item = "normalize_doc sample_str_other doc_a"]
    sample_list_result
  by (simp add: normalize_doc_def doc_a_def py_get_def)

theorem empty_secret_denies_witness:
  "\<not> is_admin (Some '''') (Some '''')
   \<and> delete_transaction (Some '''') ObjectId_hex (Some sample_db) sample_id (Some '''')
       = (Inl forbidden, Some sample_db)"
  using empty_secret_denies [where token = "Some ''''" and ObjectId = ObjectId_hex
      and db = "Some sample_db" and tx_id = sample_id]
  by simp

theorem unset_secret_denies_witness:
  "\<not> is_admin None (Some ''rahasia'')
   \<and> delete_transaction None ObjectId_hex (Some sample_db) sample_id (Some ''rahasia'')
       = (Inl forbidden, Some sample_db)
   \<and> post_api_transactions json_timestamp json_number None sample_create_document
        (Some sample_db) dues_body (Some ''rahasia'') = (Inl forbidden, Some sample_db)"
  using unset_secret_denies [where token = "Some ''rahasia''" and ObjectId = ObjectId_hex
      and db = "Some sample_db" and tx_id = sample_id and to_datetime = json_timestamp
      and to_float = json_number and create_document = sample_create_document and b = dues_body]
    dues_body_valid
  by simp

end
